theory Spec2Isabelle
  imports Complex_Main
begin

section \<open>File identifiers: \<open>resolve_file_id_to_path\<close>\<close>

text \<open>
  The upload and output stores are flat directories. \<open>resolve_file_id_to_path\<close> lists the
  directory and keeps the names that start with the identifier. The listing (the answer of
  \<open>os.listdir\<close>, in the order the operating system gives it) is an argument of the model.
\<close>

datatype http_exception = HTTPException nat string

text \<open>\<open>str.startswith\<close>: the second argument is the prefix looked for.\<close>

fun startswith :: "string \<Rightarrow> string \<Rightarrow> bool" where
  "startswith s [] = True"
| "startswith [] (p # ps) = False"
| "startswith (c # s) (p # ps) = (c = p \<and> startswith s ps)"

text \<open>\<open>os.path.join\<close> on two components (posixpath).\<close>

definition os_path_join :: "string \<Rightarrow> string \<Rightarrow> string" where
  "os_path_join a b =
     (if startswith b ''/'' then b
      else if a = [] \<or> last a = CHR ''/'' then a @ b
      else a @ ''/'' @ b)"

definition resolve_file_id_to_path ::
  "string \<Rightarrow> string \<Rightarrow> string list \<Rightarrow> http_exception + string" where
  "resolve_file_id_to_path file_id directory listing =
     (let matching_files = filter (\<lambda>f. startswith f file_id) listing
      in case matching_files of
           [] \<Rightarrow> Inl (HTTPException 404
                   (''File with ID '' @ [CHR 0x27] @ file_id @ [CHR 0x27] @
                    '' not found in '' @ directory @ ''.''))
         | f # _ \<Rightarrow> Inr (os_path_join directory f))"

section \<open>The pan animation: \<open>get_y_position\<close>\<close>

text \<open>
  Durations, offsets and times are Python floats. A finite float is modelled as the real
  number it stands for, and rounding inside the finite range is not modelled. What is
  modelled is the end of that range: the result of a multiplication or a division whose
  exact value lies beyond the largest finite float is an infinity, dividing an infinity by
  a finite number gives an infinity, and \<open>math.sin\<close> raises \<open>ValueError\<close> on an infinity.
  Python's \<open>/\<close> raises \<open>ZeroDivisionError\<close> on a zero divisor. The arguments of
  \<open>get_y_position\<close> are finite floats; the period is \<open>None\<close> or a number.
\<close>

datatype py_error = ZeroDivisionError | ValueError | AttributeError








section \<open>Clips and the media library\<close>

text \<open>
  The pipeline drives an external media library. Only what the pipeline reads back from a
  clip is kept: which object it is, its \<open>start\<close>, \<open>duration\<close> and \<open>end\<close>, the fade-out put on
  it, and the audio bound to it. Every library call that returns a clip returns a new
  object; an object is named by the place of the pipeline that creates it (each place runs
  at most once per loop index), so two variables alias exactly when they hold the same
  \<open>handle\<close>. Every clip of the pipeline gets its duration from a float argument, so a
  duration is a number and the \<open>is None\<close> half of the source's duration checks has no case
  here; the \<open><= 0\<close> half is kept.
\<close>

datatype handle =
    SlideClip nat
  | TextClip nat
  | BaseVideo
  | BaseResized
  | FinalComposite
  | FinalResized
  | FinalRetimed
  | FinalWithAudio
  | FullAudio
  | TempAudio
  | FinalAudio

record audio_clip =
  audio_obj :: handle
  audio_duration :: real

record clip =
  obj :: handle
  start :: real
  duration :: real
  end_t :: real
  crossfade :: "real option"
  audio :: "audio_clip option"

text \<open>\<open>set_start\<close> and \<open>set_duration\<close> move the end with them; \<open>crossfadeout\<close> fades the
  mask over the last seconds of the clip and leaves its duration alone.\<close>

definition set_start :: "clip \<Rightarrow> real \<Rightarrow> clip" where
  "set_start c t = c\<lparr>start := t, end_t := t + duration c\<rparr>"

definition set_duration :: "clip \<Rightarrow> real \<Rightarrow> clip" where
  "set_duration c t = c\<lparr>duration := t, end_t := start c + t\<rparr>"

definition crossfadeout :: "clip \<Rightarrow> real \<Rightarrow> clip" where
  "crossfadeout c d = c\<lparr>crossfade := Some d\<rparr>"

text \<open>\<open>set_audio\<close> returns a copy of the clip that carries the audio (or none); in the
  pipeline the copy is the final clip with its audio decided.\<close>

definition set_audio :: "clip \<Rightarrow> audio_clip option \<Rightarrow> clip" where
  "set_audio c a = c\<lparr>obj := FinalWithAudio, audio := a\<rparr>"

text \<open>\<open>concatenate_videoclips(clips, method="compose")\<close>, called without \<open>padding\<close>: clip
  \<open>k\<close> starts where clip \<open>k - 1\<close> ends, and the result lasts the sum of the durations.\<close>

definition concatenate_videoclips :: "clip list \<Rightarrow> clip" where
  "concatenate_videoclips clips =
     \<lparr>obj = BaseVideo, start = 0, duration = sum_list (map duration clips),
      end_t = sum_list (map duration clips), crossfade = None, audio = None\<rparr>"

text \<open>\<open>CompositeVideoClip\<close> lasts until the latest end of its layers.\<close>

definition CompositeVideoClip :: "clip \<Rightarrow> clip list \<Rightarrow> clip" where
  "CompositeVideoClip bg layers =
     \<lparr>obj = FinalComposite, start = 0,
      duration = fold max (map end_t layers) (end_t bg),
      end_t = fold max (map end_t layers) (end_t bg), crossfade = None, audio = None\<rparr>"

text \<open>\<open>create_text_clip_with_style\<close> ends in \<open>ImageClip(..., duration=actual_duration)\<close>; the
  pipeline only calls it with a positive duration, so \<open>actual_duration\<close> is that duration.\<close>

definition create_text_clip_with_style :: "nat \<Rightarrow> real \<Rightarrow> clip" where
  "create_text_clip_with_style j dur =
     \<lparr>obj = TextClip j, start = 0, duration = dur, end_t = dur, crossfade = None, audio = None\<rparr>"

text \<open>\<open>subclip\<close> on an audio clip; the new object is named by the caller.\<close>

definition subclip :: "audio_clip \<Rightarrow> handle \<Rightarrow> real \<Rightarrow> real option \<Rightarrow> py_error + audio_clip" where
  "subclip a h t_start t_end =
     (let ts = (if t_start < 0 then audio_duration a + t_start else t_start)
      in if ts > audio_duration a then Inl ValueError
         else let te = (case t_end of
                          None \<Rightarrow> audio_duration a
                        | Some e \<Rightarrow> if e < 0 then audio_duration a + e else e)
              in Inr \<lparr>audio_obj = h, audio_duration = te - ts\<rparr>)"

text \<open>
  The loop effect is looked up as \<open>vfx.audio_loop\<close>, where \<open>vfx\<close> is \<open>moviepy.video.fx.all\<close>
  (line 10). That module holds the video effects only; \<open>audio_loop\<close> is an audio effect and
  is not among its attributes, so the lookup raises \<open>AttributeError\<close> before \<open>fx\<close> is
  entered.
\<close>

definition vfx_audio_loop :: "py_error + (audio_clip \<Rightarrow> real \<Rightarrow> audio_clip)" where
  "vfx_audio_loop = Inl AttributeError"

section \<open>Requests and the outside world\<close>

text \<open>The field \<open>text\<close> of \<open>TextOverlay\<close> is \<open>overlay_text\<close> here.\<close>

record text_overlay =
  overlay_text :: string
  style :: string
  image_index :: "int option"
  position :: string

record params =
  image_paths :: "string list"
  audio_path :: string
  output_path :: string
  image_display_duration :: real
  transition_duration :: real
  music_segment_start_time :: real
  audio_segment_duration_from_music :: "real option"
  fps :: int
  texts :: "text_overlay list option"
  video_size :: "nat \<times> nat"
  enable_image_animations :: bool

text \<open>
  What the file system and the library answer during one run: whether an image can be
  opened and turned into a clip, whether the concatenated video has the requested size, the
  state of the audio file, the duration of the track, and whether the calls that the
  pipeline guards with a handler return or raise: opening the audio clip, its reader and
  test frame, the frame check on the final audio, the encoder, and the removal of a failed
  output.
\<close>

record world =
  image_loads :: "string \<Rightarrow> bool"
  base_size_matches :: bool
  audio_exists :: bool
  audio_readable :: bool
  audio_getsize :: nat
  audio_opens :: bool
  track_duration :: real
  reader_present :: bool
  test_frame_ok :: bool
  make_frame_present :: bool
  final_frame_ok :: bool
  write_returns :: bool
  partial_file_left :: bool
  remove_succeeds :: bool

text \<open>The failures of the pipeline, one per \<open>return False, ...\<close> of the source.\<close>

datatype failure =
    NoValidImageClips
  | AudioFileMissing string
  | AudioFileNotReadable string
  | AudioFileEmpty string
  | AudioReaderMissing
  | AudioReaderGetFrame
  | MusicStartBeyondDuration
  | AudioProcessingFailed
  | NoDurationBeforeWriting
  | FinalAudioNoMakeFrame
  | FinalAudioGetFrame
  | InternalError

text \<open>The variables that the cleanup reads.\<close>

record locals =
  processed_image_clips :: "clip list"
  text_clips_to_composite :: "clip list"
  base_video :: "clip option"
  final_video_clip :: "clip option"
  full_audio_clip_main :: "audio_clip option"
  temp_audio_segment_intermediate :: "audio_clip option"
  audio_segment_final_for_video :: "audio_clip option"

definition initial_locals :: locals where
  "initial_locals =
     \<lparr>processed_image_clips = [], text_clips_to_composite = [], base_video = None,
      final_video_clip = None, full_audio_clip_main = None,
      temp_audio_segment_intermediate = None, audio_segment_final_for_video = None\<rparr>"

text \<open>The output file: absent, left half-written by a failed encoder, or complete.\<close>

datatype file_state = Absent | Partial | Complete clip

section \<open>The image slide builder\<close>

text \<open>The transition given to \<open>crossfadeout\<close>.\<close>

definition actual_transition :: "real \<Rightarrow> real \<Rightarrow> real" where
  "actual_transition transition_dur clip_duration =
     (if transition_dur \<ge> clip_duration then max 0.1 (clip_duration * 0.5)
      else transition_dur)"

text \<open>
  One turn of the image loop. Resizing, cropping and the two animations keep the duration
  \<open>image_display_duration\<close>; a failure of any of these library calls is an exception, which
  the outer handler turns into the internal error.
\<close>

definition build_slide :: "world \<Rightarrow> params \<Rightarrow> nat \<Rightarrow> string \<Rightarrow> failure + clip" where
  "build_slide w p i img_path =
     (if \<not> image_loads w img_path then Inl InternalError
      else
        let cropped_clip = \<lparr>obj = SlideClip i, start = 0, duration = image_display_duration p,
                             end_t = image_display_duration p, crossfade = None, audio = None\<rparr>;
            current_image_canvas_clip =
              (if enable_image_animations p then set_duration cropped_clip (duration cropped_clip)
               else cropped_clip)
        in if int i < int (length (image_paths p)) - 1 \<and> transition_duration p > 0 then
             (if duration current_image_canvas_clip \<le> 0 then Inl InternalError
              else
                let faded = crossfadeout current_image_canvas_clip
                              (actual_transition (transition_duration p)
                                 (duration current_image_canvas_clip))
                in if duration faded \<le> 0 then Inl InternalError else Inr faded)
           else if duration current_image_canvas_clip \<le> 0 then Inl InternalError
           else Inr current_image_canvas_clip)"

text \<open>The image loop stops at the first exception; the clips appended so far stay in
  \<open>processed_image_clips\<close>.\<close>

fun image_loop ::
  "world \<Rightarrow> params \<Rightarrow> nat \<Rightarrow> string list \<Rightarrow> clip list \<Rightarrow> failure option \<times> clip list" where
  "image_loop w p i [] acc = (None, acc)"
| "image_loop w p i (img_path # rest) acc =
     (case build_slide w p i img_path of
        Inl e \<Rightarrow> (Some e, acc)
      | Inr c \<Rightarrow> image_loop w p (Suc i) rest (acc @ [c]))"

section \<open>Text overlays\<close>

definition clip_eff_duration :: "params \<Rightarrow> nat \<Rightarrow> real" where
  "clip_eff_duration p k_idx =
     (if int k_idx < int (length (image_paths p)) - 1 \<and> transition_duration p > 0
      then image_display_duration p
             - min (transition_duration p) (image_display_duration p * 0.5)
      else image_display_duration p)"

text \<open>\<open>for k_idx in range(image_index): current_start_time += clip_eff_duration\<close>\<close>

fun current_start_time :: "params \<Rightarrow> nat list \<Rightarrow> real \<Rightarrow> real" where
  "current_start_time p [] acc = acc"
| "current_start_time p (k_idx # ks) acc = current_start_time p ks (acc + clip_eff_duration p k_idx)"

text \<open>Start and duration of an overlay: those of its slide when the index names one of the
  \<open>n\<close> processed clips, otherwise the defaults set at the top of the loop body.\<close>

definition text_timing :: "params \<Rightarrow> real \<Rightarrow> nat \<Rightarrow> text_overlay \<Rightarrow> real \<times> real" where
  "text_timing p total_video_duration n text_data =
     (case image_index text_data of
        None \<Rightarrow> (0, total_video_duration)
      | Some k \<Rightarrow>
          if 0 \<le> k \<and> k < int n
          then (current_start_time p [0..<nat k] 0, image_display_duration p)
          else (0, total_video_duration))"

definition text_clip :: "params \<Rightarrow> real \<Rightarrow> nat \<Rightarrow> nat \<Rightarrow> text_overlay \<Rightarrow> clip option" where
  "text_clip p total_video_duration n j text_data =
     (let (text_start_time, text_duration) = text_timing p total_video_duration n text_data
      in if text_duration \<le> 0 then None
         else
           let txt_clip_candidate =
                 set_duration (set_start (create_text_clip_with_style j text_duration)
                                 text_start_time) text_duration
           in if duration txt_clip_candidate > 0 then
                (let clipped =
                       (if end_t txt_clip_candidate > total_video_duration
                        then set_duration txt_clip_candidate
                               (max 0 (total_video_duration - start txt_clip_candidate))
                        else txt_clip_candidate)
                 in if duration clipped > 0 then Some clipped else None)
              else None)"

fun text_loop :: "params \<Rightarrow> real \<Rightarrow> nat \<Rightarrow> nat \<Rightarrow> text_overlay list \<Rightarrow> clip list" where
  "text_loop p tvd n j [] = []"
| "text_loop p tvd n j (text_data # rest) =
     (case text_clip p tvd n j text_data of
        None \<Rightarrow> text_loop p tvd n (Suc j) rest
      | Some c \<Rightarrow> c # text_loop p tvd n (Suc j) rest)"

section \<open>The pipeline: \<open>_create_video_from_images_and_music_logic\<close>\<close>

text \<open>
  Compositing. With text layers the final clip is a new composite over the base video; with
  none, \<open>final_video_clip\<close> is the base video itself, unless a resize or a change of
  duration makes a new object of it.
\<close>

definition compose_final ::
  "world \<Rightarrow> real \<Rightarrow> clip \<Rightarrow> locals \<Rightarrow> (failure + real) \<times> locals" where
  "compose_final w total_video_duration base lv =
     (let lv' =
        (if text_clips_to_composite lv \<noteq> [] then
           (let base' = (if \<not> base_size_matches w then base\<lparr>obj := BaseResized\<rparr> else base);
                composite = CompositeVideoClip base' (text_clips_to_composite lv)
            in lv\<lparr>base_video := Some base',
                  final_video_clip := Some (set_duration composite total_video_duration)\<rparr>)
         else
           (let resized = (if \<not> base_size_matches w then base\<lparr>obj := FinalResized\<rparr> else base);
                retimed = (if duration resized \<noteq> total_video_duration
                           then (set_duration resized total_video_duration)\<lparr>obj := FinalRetimed\<rparr>
                           else resized)
            in lv\<lparr>final_video_clip := Some retimed\<rparr>))
      in case final_video_clip lv' of
           None \<Rightarrow> (Inl InternalError, lv')
         | Some final \<Rightarrow>
             if duration final \<le> 0 then (Inl InternalError, lv')
             else (Inr total_video_duration, lv'))"

text \<open>The visual part of the \<open>try\<close> block: image loop, concatenation, text loop,
  compositing. It yields \<open>total_video_duration\<close>.\<close>

definition visual_stage :: "world \<Rightarrow> params \<Rightarrow> locals \<Rightarrow> (failure + real) \<times> locals" where
  "visual_stage w p lv =
     (case image_loop w p 0 (image_paths p) [] of
        (Some e, clips) \<Rightarrow> (Inl e, lv\<lparr>processed_image_clips := clips\<rparr>)
      | (None, clips) \<Rightarrow>
          let lv1 = lv\<lparr>processed_image_clips := clips\<rparr>
          in if clips = [] then (Inl NoValidImageClips, lv1)
             else
               let base = concatenate_videoclips clips;
                   lv2 = lv1\<lparr>base_video := Some base\<rparr>
               in if duration base \<le> 0 then (Inl InternalError, lv2)
                  else
                    let total_video_duration = duration base;
                        lv3 = (case texts p of
                                 None \<Rightarrow> lv2
                               | Some ts \<Rightarrow>
                                   lv2\<lparr>text_clips_to_composite :=
                                          text_loop p total_video_duration (length clips) 0 ts\<rparr>)
                    in compose_final w total_video_duration base lv3)"

text \<open>
  The audio part. The three file checks return before any audio clip is made. Inside the
  inner \<open>try\<close>, an exception of the library becomes \<open>AudioProcessingFailed\<close>.
\<close>

definition audio_stage ::
  "world \<Rightarrow> params \<Rightarrow> real \<Rightarrow> clip \<Rightarrow> locals \<Rightarrow> (failure + unit) \<times> locals" where
  "audio_stage w p total_video_duration final lv =
     (if \<not> audio_exists w then (Inl (AudioFileMissing (audio_path p)), lv)
      else if \<not> audio_readable w then (Inl (AudioFileNotReadable (audio_path p)), lv)
      else if audio_getsize w = 0 then (Inl (AudioFileEmpty (audio_path p)), lv)
      else if \<not> audio_opens w then (Inl AudioProcessingFailed, lv)
      else
        let full = \<lparr>audio_obj = FullAudio, audio_duration = track_duration w\<rparr>;
            lv1 = lv\<lparr>full_audio_clip_main := Some full\<rparr>
        in if \<not> reader_present w then (Inl AudioReaderMissing, lv1)
           else if \<not> test_frame_ok w then (Inl AudioReaderGetFrame, lv1)
           else if music_segment_start_time p \<ge> audio_duration full
             then (Inl MusicStartBeyondDuration, lv1)
           else
             let subclip_end_time =
                   (case audio_segment_duration_from_music p of
                      None \<Rightarrow> None
                    | Some d \<Rightarrow> Some (music_segment_start_time p + d))
             in case subclip full TempAudio (music_segment_start_time p) subclip_end_time of
                  Inl e \<Rightarrow> (Inl AudioProcessingFailed, lv1)
                | Inr temp \<Rightarrow>
                    let lv2 = lv1\<lparr>temp_audio_segment_intermediate := Some temp\<rparr>
                    in if audio_duration temp = 0 then
                         (Inr (), lv2\<lparr>final_video_clip := Some (set_audio final None),
                                       audio_segment_final_for_video := None\<rparr>)
                       else if audio_duration temp < total_video_duration then
                         (case vfx_audio_loop of
                            Inl e \<Rightarrow> (Inl AudioProcessingFailed, lv2)
                          | Inr effect \<Rightarrow>
                              let looped = effect temp total_video_duration
                              in (Inr (), lv2\<lparr>audio_segment_final_for_video := Some looped,
                                               final_video_clip := Some (set_audio final (Some looped))\<rparr>))
                       else
                         (case subclip temp FinalAudio 0 (Some total_video_duration) of
                            Inl e \<Rightarrow> (Inl AudioProcessingFailed, lv2)
                          | Inr truncated \<Rightarrow>
                              (Inr (), lv2\<lparr>audio_segment_final_for_video := Some truncated,
                                            final_video_clip := Some (set_audio final (Some truncated))\<rparr>)))"

text \<open>The last checks and \<open>write_videofile\<close>. An encoder that raises may leave a file.\<close>

definition write_stage :: "world \<Rightarrow> params \<Rightarrow> clip \<Rightarrow> (failure + string) \<times> file_state" where
  "write_stage w p final =
     (if duration final \<le> 0 then (Inl NoDurationBeforeWriting, Absent)
      else if audio final \<noteq> None \<and> \<not> make_frame_present w then (Inl FinalAudioNoMakeFrame, Absent)
      else if audio final \<noteq> None \<and> \<not> final_frame_ok w then (Inl FinalAudioGetFrame, Absent)
      else if write_returns w then (Inr (output_path p), Complete final)
      else (Inl InternalError, if partial_file_left w then Partial else Absent))"

text \<open>The \<open>try\<close> block as a whole: the result, the variables as they stand when the block
  is left, and the output file. The output name is a fresh \<open>uuid4\<close>, so the file is absent
  until \<open>write_videofile\<close> runs.\<close>

definition try_block :: "world \<Rightarrow> params \<Rightarrow> (failure + string) \<times> locals \<times> file_state" where
  "try_block w p =
     (case visual_stage w p initial_locals of
        (Inl e, lv) \<Rightarrow> (Inl e, lv, Absent)
      | (Inr total_video_duration, lv) \<Rightarrow>
          (case final_video_clip lv of
             None \<Rightarrow> (Inl InternalError, lv, Absent)
           | Some final \<Rightarrow>
               (case audio_stage w p total_video_duration final lv of
                  (Inl e, lv') \<Rightarrow> (Inl e, lv', Absent)
                | (Inr u, lv') \<Rightarrow>
                    (case final_video_clip lv' of
                       None \<Rightarrow> (Inl InternalError, lv', Absent)
                     | Some final' \<Rightarrow>
                         (case write_stage w p final' of
                            (r, f) \<Rightarrow> (r, lv', f))))))"

text \<open>The \<open>finally\<close> block: the objects on which the pipeline calls \<open>close\<close>, in the order
  of the calls. \<open>is not\<close> compares objects. What \<open>close\<close> does inside the library is not
  part of the model.\<close>

definition finally_block :: "locals \<Rightarrow> handle list" where
  "finally_block lv =
     (case final_video_clip lv of None \<Rightarrow> [] | Some c \<Rightarrow> [obj c])
     @ (case base_video lv of None \<Rightarrow> [] | Some c \<Rightarrow> [obj c])
     @ map obj (processed_image_clips lv)
     @ map obj (text_clips_to_composite lv)
     @ (case audio_segment_final_for_video lv of None \<Rightarrow> [] | Some a \<Rightarrow> [audio_obj a])
     @ (case temp_audio_segment_intermediate lv of
          None \<Rightarrow> []
        | Some t \<Rightarrow>
            (case audio_segment_final_for_video lv of
               None \<Rightarrow> [audio_obj t]
             | Some a \<Rightarrow> if audio_obj t \<noteq> audio_obj a then [audio_obj t] else []))
     @ (case full_audio_clip_main lv of None \<Rightarrow> [] | Some a \<Rightarrow> [audio_obj a])"

record outcome =
  result :: "failure + string"
  closed :: "handle list"
  at_exit :: locals
  output_file :: file_state

definition create_video_from_images_and_music_logic :: "world \<Rightarrow> params \<Rightarrow> outcome" where
  "create_video_from_images_and_music_logic w p =
     (case try_block w p of
        (r, lv, f) \<Rightarrow> \<lparr>result = r, closed = finally_block lv, at_exit = lv, output_file = f\<rparr>)"

text \<open>The endpoint, after the identifiers are resolved: on failure it removes the output
  file if there is one and answers with status 500 and the failure as detail.\<close>

datatype response = VideoCreated string | ServerError nat failure

definition create_video_from_images :: "world \<Rightarrow> params \<Rightarrow> response \<times> file_state" where
  "create_video_from_images w p =
     (let out = create_video_from_images_and_music_logic w p
      in case result out of
           Inr path \<Rightarrow> (VideoCreated path, output_file out)
         | Inl e \<Rightarrow>
             (ServerError 500 e,
              if output_file out \<noteq> Absent \<and> remove_succeeds w then Absent
              else output_file out))"

section \<open>Example runs\<close>

definition fine_world :: world where
  "fine_world =
     \<lparr>image_loads = (\<lambda>path. True), base_size_matches = True, audio_exists = True,
      audio_readable = True, audio_getsize = 4096, audio_opens = True, track_duration = 10,
      reader_present = True, test_frame_ok = True,
      make_frame_present = True, final_frame_ok = True, write_returns = True,
      partial_file_left = False, remove_succeeds = True\<rparr>"

definition three_slides :: params where
  "three_slides =
     \<lparr>image_paths = [''uploaded_files/a.png'', ''uploaded_files/b.png'', ''uploaded_files/c.png''],
      audio_path = ''uploaded_files/m.mp3'', output_path = ''processed_outputs/out.mp4'',
      image_display_duration = 3, transition_duration = 1, music_segment_start_time = 0,
      audio_segment_duration_from_music = None, fps = 24, texts = None,
      video_size = (1920, 1080), enable_image_animations = False\<rparr>"

text \<open>Two images and one overlay bound to \<open>image_index = 2\<close>.\<close>

definition overlay_on_missing_slide :: params where
  "overlay_on_missing_slide =
     three_slides
       \<lparr>image_paths := [''uploaded_files/a.png'', ''uploaded_files/b.png''],
        texts := Some [\<lparr>overlay_text = ''hello'', style = ''Minimal'',
                         image_index = Some 2, position = ''bottom''\<rparr>]\<rparr>"

text \<open>Three images and one overlay bound to the second.\<close>

definition overlay_on_second_slide :: params where
  "overlay_on_second_slide =
     three_slides
       \<lparr>texts := Some [\<lparr>overlay_text = ''hello'', style = ''Minimal'',
                         image_index = Some 1, position = ''bottom''\<rparr>]\<rparr>"

text \<open>One image of 5 seconds under a global overlay, and a music segment of 2 seconds.\<close>

definition one_slide_short_music :: params where
  "one_slide_short_music =
     \<lparr>image_paths = [''uploaded_files/a.png''],
      audio_path = ''uploaded_files/m.mp3'', output_path = ''processed_outputs/out.mp4'',
      image_display_duration = 5, transition_duration = 1, music_segment_start_time = 0,
      audio_segment_duration_from_music = Some 2, fps = 24,
      texts = Some [\<lparr>overlay_text = ''hello'', style = ''Minimal'', image_index = None,
                      position = ''bottom''\<rparr>],
      video_size = (1920, 1080), enable_image_animations = False\<rparr>"

section \<open>Theorems\<close>

subsection \<open>Helper facts\<close>

lemma startswith_Nil [simp]: "startswith f []"
  by (cases f) simp_all

lemma filter_empty_iff_no_match:
  "(filter P xs = []) = (\<not> (\<exists>x \<in> set xs. P x))"
  by (induction xs) auto

lemmas run_defs =
  create_video_from_images_and_music_logic_def try_block_def visual_stage_def build_slide_def
  initial_locals_def concatenate_videoclips_def compose_final_def audio_stage_def subclip_def
  set_audio_def write_stage_def crossfadeout_def actual_transition_def finally_block_def
  vfx_audio_loop_def set_duration_def set_start_def CompositeVideoClip_def text_clip_def
  text_timing_def create_text_clip_with_style_def clip_eff_duration_def
  create_video_from_images_def Let_def

lemma current_start_time_sum:
  "current_start_time p ks acc = acc + sum_list (map (clip_eff_duration p) ks)"
  by (induction ks arbitrary: acc) simp_all

lemma current_start_time_upt:
  "current_start_time p [0..<k] 0 = (\<Sum>i<k. clip_eff_duration p i)"
  by (simp add: current_start_time_sum interv_sum_list_conv_sum_set_nat atLeast0LessThan)

subsection \<open>The stages of the pipeline\<close>

lemma build_slide_Inr:
  assumes "build_slide w p i img_path = Inr c"
  shows "duration c = image_display_duration p \<and> 0 < image_display_duration p \<and> audio c = None"
  using assms
  by (auto simp add: build_slide_def crossfadeout_def set_duration_def Let_def split: if_splits)

lemma image_loop_None:
  assumes "image_loop w p i paths acc = (None, clips)"
  shows "sum_list (map duration clips)
           = sum_list (map duration acc) + real (length paths) * image_display_duration p
         \<and> length clips = length acc + length paths
         \<and> (paths \<noteq> [] \<longrightarrow> 0 < image_display_duration p)"
  using assms
proof (induction paths arbitrary: i acc)
  case Nil
  then show ?case by simp
next
  case (Cons img_path rest)
  from Cons.prems obtain c where c: "build_slide w p i img_path = Inr c"
    and rec: "image_loop w p (Suc i) rest (acc @ [c]) = (None, clips)"
    by (cases "build_slide w p i img_path") simp_all
  from Cons.IH [OF rec] build_slide_Inr [OF c]
  show ?case by (simp add: algebra_simps)
qed

lemma compose_final_Inr:
  assumes "compose_final w t base lv = (Inr t', lv')" and "duration base = t"
    and "audio base = None"
  shows "t' = t \<and> 0 < t
       \<and> (\<exists>final. final_video_clip lv' = Some final \<and> duration final = t
                   \<and> audio final = None)
       \<and> full_audio_clip_main lv' = full_audio_clip_main lv
       \<and> temp_audio_segment_intermediate lv' = temp_audio_segment_intermediate lv
       \<and> audio_segment_final_for_video lv' = audio_segment_final_for_video lv
       \<and> processed_image_clips lv' = processed_image_clips lv"
  using assms
  by (auto simp add: compose_final_def set_duration_def CompositeVideoClip_def Let_def
      split: if_splits option.splits)

lemma compose_final_locals:
  assumes "compose_final w t base lv = (r, lv')"
  shows "full_audio_clip_main lv' = full_audio_clip_main lv
       \<and> temp_audio_segment_intermediate lv' = temp_audio_segment_intermediate lv
       \<and> audio_segment_final_for_video lv' = audio_segment_final_for_video lv"
  using assms
  by (auto simp add: compose_final_def Let_def split: if_splits option.splits)

lemma visual_stage_locals:
  assumes "visual_stage w p lv = (r, lv')"
  shows "full_audio_clip_main lv' = full_audio_clip_main lv
       \<and> temp_audio_segment_intermediate lv' = temp_audio_segment_intermediate lv
       \<and> audio_segment_final_for_video lv' = audio_segment_final_for_video lv"
  using assms
  by (auto simp add: visual_stage_def Let_def
      split: if_splits option.splits prod.splits dest!: compose_final_locals)

lemma visual_stage_Inr:
  assumes "visual_stage w p lv = (Inr t, lv')"
  shows "t = real (length (image_paths p)) * image_display_duration p \<and> 0 < t
       \<and> image_paths p \<noteq> []
       \<and> (\<exists>final. final_video_clip lv' = Some final \<and> duration final = t \<and> audio final = None)"
proof -
  obtain clips where loop: "image_loop w p 0 (image_paths p) [] = (None, clips)"
    using assms by (cases "image_loop w p 0 (image_paths p) []")
      (auto simp add: visual_stage_def split: option.splits)
  from image_loop_None [OF loop]
  have total: "sum_list (map duration clips)
                 = real (length (image_paths p)) * image_display_duration p"
    and len: "length clips = length (image_paths p)"
    by simp_all
  let ?base = "concatenate_videoclips clips"
  have dur: "duration ?base = real (length (image_paths p)) * image_display_duration p"
    and noaudio: "audio ?base = None"
    using total by (simp_all add: concatenate_videoclips_def)
  from assms loop obtain lv3 where cf: "compose_final w (duration ?base) ?base lv3 = (Inr t, lv')"
    and ne: "clips \<noteq> []"
    by (auto simp add: visual_stage_def Let_def split: if_splits option.splits)
  from compose_final_Inr [OF cf refl noaudio] dur ne len
  show ?thesis by auto
qed


lemma audio_stage_unusable_file:
  assumes "\<not> audio_exists w \<or> \<not> audio_readable w \<or> audio_getsize w = 0"
  shows "audio_stage w p t final lv =
           (Inl (if \<not> audio_exists w then AudioFileMissing (audio_path p)
                 else if \<not> audio_readable w then AudioFileNotReadable (audio_path p)
                 else AudioFileEmpty (audio_path p)), lv)"
  using assms by (auto simp add: audio_stage_def)

lemma audio_stage_Inr_final:
  assumes "audio_stage w p t final lv = (Inr u, lv')"
  shows "\<exists>a. final_video_clip lv' = Some (set_audio final a)"
  using assms
  by (auto simp add: audio_stage_def Let_def split: if_splits option.splits sum.splits)

lemma initial_audio_vars:
  "full_audio_clip_main initial_locals = None
   \<and> temp_audio_segment_intermediate initial_locals = None
   \<and> audio_segment_final_for_video initial_locals = None
   \<and> final_video_clip initial_locals = None"
  by (simp add: initial_locals_def)

lemma try_block_visual_failed:
  assumes "visual_stage w p initial_locals = (Inl e, lv)"
  shows "try_block w p = (Inl e, lv, Absent)"
  using assms by (simp add: try_block_def)

lemma try_block_audio_failed:
  assumes "visual_stage w p initial_locals = (Inr t, lv)"
    and "final_video_clip lv = Some final"
    and "audio_stage w p t final lv = (Inl e, lv')"
  shows "try_block w p = (Inl e, lv', Absent)"
  using assms by (simp add: try_block_def)

lemma try_block_written:
  assumes "visual_stage w p initial_locals = (Inr t, lv)"
    and "final_video_clip lv = Some final"
    and "audio_stage w p t final lv = (Inr u, lv')"
    and "final_video_clip lv' = Some final'"
  shows "try_block w p = (fst (write_stage w p final'), lv', snd (write_stage w p final'))"
  using assms by (simp add: try_block_def split: prod.splits)

lemma try_block_shape:
  obtains (visual_failed) e lv where "visual_stage w p initial_locals = (Inl e, lv)"
      and "try_block w p = (Inl e, lv, Absent)"
  | (audio_failed) t lv final e lv' where "visual_stage w p initial_locals = (Inr t, lv)"
      and "final_video_clip lv = Some final" and "audio final = None" and "duration final = t"
      and "0 < t"
      and "audio_stage w p t final lv = (Inl e, lv')"
      and "try_block w p = (Inl e, lv', Absent)"
  | (written) t lv final lv' a where "visual_stage w p initial_locals = (Inr t, lv)"
      and "final_video_clip lv = Some final" and "audio final = None" and "duration final = t"
      and "0 < t"
      and "audio_stage w p t final lv = (Inr (), lv')"
      and "final_video_clip lv' = Some (set_audio final a)"
      and "try_block w p = (fst (write_stage w p (set_audio final a)), lv',
                            snd (write_stage w p (set_audio final a)))"
proof (cases "visual_stage w p initial_locals")
  case (Pair r lv)
  show ?thesis
  proof (cases r)
    case (Inl e)
    with Pair try_block_visual_failed [of w p e lv] visual_failed show ?thesis by simp
  next
    case (Inr t)
    with Pair have vs: "visual_stage w p initial_locals = (Inr t, lv)" by simp
    from visual_stage_Inr [OF vs] obtain final where
      f: "final_video_clip lv = Some final" "audio final = None" "duration final = t" "0 < t"
      by blast
    show ?thesis
    proof (cases "audio_stage w p t final lv")
      case (Pair r' lv')
      show ?thesis
      proof (cases r')
        case (Inl e)
        with Pair have as: "audio_stage w p t final lv = (Inl e, lv')" by simp
        from audio_failed [OF vs f as try_block_audio_failed [OF vs f(1) as]]
        show ?thesis .
      next
        case (Inr u)
        with Pair have as: "audio_stage w p t final lv = (Inr (), lv')" by simp
        from audio_stage_Inr_final [OF as] obtain a where
          fa: "final_video_clip lv' = Some (set_audio final a)" by blast
        from written [OF vs f as fa try_block_written [OF vs f(1) as fa]]
        show ?thesis .
      qed
    qed
  qed
qed


lemma logic_fields:
  assumes "try_block w p = (r, lv, f)"
  shows "result (create_video_from_images_and_music_logic w p) = r"
    and "at_exit (create_video_from_images_and_music_logic w p) = lv"
    and "output_file (create_video_from_images_and_music_logic w p) = f"
    and "closed (create_video_from_images_and_music_logic w p) = finally_block lv"
  using assms by (simp_all add: create_video_from_images_and_music_logic_def)

lemma endpoint_failed:
  assumes "result (create_video_from_images_and_music_logic w p) = Inl e"
    and "output_file (create_video_from_images_and_music_logic w p) = Absent"
  shows "create_video_from_images w p = (ServerError 500 e, Absent)"
  using assms by (simp add: create_video_from_images_def Let_def)

lemma text_clip_obj:
  assumes "text_clip p tvd n j text_data = Some c"
  shows "obj c = TextClip j"
  using assms
  by (auto simp add: text_clip_def set_start_def set_duration_def create_text_clip_with_style_def
      Let_def split: if_splits prod.splits)

lemma text_loop_other_objects:
  assumes "j < j0"
  shows "filter (\<lambda>c. obj c = TextClip j) (text_loop p tvd n j0 ts) = []"
  using assms
proof (induction ts arbitrary: j0)
  case Nil
  then show ?case by simp
next
  case (Cons text_data rest)
  from Cons.prems have "j < Suc j0" by simp
  from Cons.IH [OF this] Cons.prems show ?case
    by (auto split: option.splits dest!: text_clip_obj)
qed

lemma text_loop_filter:
  assumes "j0 \<le> j" and "j < j0 + length ts"
  shows "filter (\<lambda>c. obj c = TextClip j) (text_loop p tvd n j0 ts)
           = (case text_clip p tvd n j (ts ! (j - j0)) of None \<Rightarrow> [] | Some c \<Rightarrow> [c])"
  using assms
proof (induction ts arbitrary: j0)
  case Nil
  then show ?case by simp
next
  case (Cons text_data rest)
  show ?case
  proof (cases "j = j0")
    case True
    then have "j < Suc j0" by simp
    from text_loop_other_objects [OF this, of p tvd n rest] True show ?thesis
      by (auto split: option.splits dest!: text_clip_obj)
  next
    case False
    with Cons.prems have a: "Suc j0 \<le> j" and b: "j < Suc j0 + length rest" by simp_all
    from False Cons.prems have nth: "(text_data # rest) ! (j - j0) = rest ! (j - Suc j0)"
      by (simp add: nth_Cons')
    from Cons.IH [OF a b] False nth show ?thesis
      by (auto split: option.splits dest!: text_clip_obj)
  qed
qed

lemma compose_final_text_clips:
  assumes "compose_final w t base lv = (r, lv')"
  shows "text_clips_to_composite lv' = text_clips_to_composite lv"
  using assms
  by (auto simp add: compose_final_def Let_def split: if_splits option.splits)

lemma audio_stage_text_clips:
  assumes "audio_stage w p t final lv = (r, lv')"
  shows "text_clips_to_composite lv' = text_clips_to_composite lv"
  using assms
  by (auto simp add: audio_stage_def vfx_audio_loop_def Let_def
      split: if_splits option.splits sum.splits)

lemma visual_stage_text_clips:
  assumes "visual_stage w p initial_locals = (Inr t, lv)" and "texts p = Some ts"
  shows "text_clips_to_composite lv = text_loop p t (length (image_paths p)) 0 ts"
proof -
  obtain clips where loop: "image_loop w p 0 (image_paths p) [] = (None, clips)"
    using assms(1) by (cases "image_loop w p 0 (image_paths p) []")
      (auto simp add: visual_stage_def split: option.splits)
  from image_loop_None [OF loop] have len: "length clips = length (image_paths p)" by simp
  let ?base = "concatenate_videoclips clips"
  let ?lv3 = "initial_locals\<lparr>processed_image_clips := clips, base_video := Some ?base,
                text_clips_to_composite := text_loop p (duration ?base) (length clips) 0 ts\<rparr>"
  from assms loop have cf: "compose_final w (duration ?base) ?base ?lv3 = (Inr t, lv)"
    by (auto simp add: visual_stage_def Let_def split: if_splits)
  have na: "audio ?base = None" by (simp add: concatenate_videoclips_def)
  from compose_final_Inr [OF cf refl na] have "t = duration ?base" by simp
  with compose_final_text_clips [OF cf] len show ?thesis by simp
qed

lemma at_exit_text_clips:
  assumes "visual_stage w p initial_locals = (Inr t, lv)"
  shows "text_clips_to_composite (at_exit (create_video_from_images_and_music_logic w p))
           = text_clips_to_composite lv"
proof (cases rule: try_block_shape [of w p])
  case (visual_failed e lv0)
  with assms show ?thesis by simp
next
  case (audio_failed t0 lv0 final e lv')
  from audio_failed(1) assms have "lv0 = lv" by simp
  with audio_stage_text_clips [OF audio_failed(6)] logic_fields(2) [OF audio_failed(7)]
  show ?thesis by simp
next
  case (written t0 lv0 final lv' a)
  from written(1) assms have "lv0 = lv" by simp
  with audio_stage_text_clips [OF written(6)] logic_fields(2) [OF written(8)]
  show ?thesis by simp
qed

lemma visual_stage_display_positive:
  assumes "visual_stage w p initial_locals = (Inr t, lv)"
  shows "0 < image_display_duration p"
proof -
  from visual_stage_Inr [OF assms]
  have "0 < real (length (image_paths p)) * image_display_duration p" by simp
  then show ?thesis by (simp add: zero_less_mult_iff)
qed

lemma eff_sum_bound:
  assumes "0 < d"
  shows "(\<Sum>i<k. if int i < int m - 1 \<and> td > 0 then d - min td (d * 0.5) else d)
           \<le> real k * (d::real)"
proof -
  have "(\<Sum>i\<in>{..<k}. if int i < int m - 1 \<and> td > 0 then d - min td (d * 0.5) else d)
          \<le> real (card {..<k}) * d"
    by (rule sum_bounded_above) (use assms in auto)
  then show ?thesis by simp
qed

lemma text_clip_on_slide:
  assumes "image_index text_data = Some k" and "0 \<le> k" and "k < int n"
    and "0 < image_display_duration p"
  shows "text_clip p tvd n j text_data =
     (let d = image_display_duration p;
          s = (\<Sum>i<nat k. if int i < int (length (image_paths p)) - 1 \<and> transition_duration p > 0
                            then d - min (transition_duration p) (d * 0.5) else d)
      in if s + d \<le> tvd
         then Some \<lparr>obj = TextClip j, start = s, duration = d, end_t = s + d,
                    crossfade = None, audio = None\<rparr>
         else if 0 < tvd - s
         then Some \<lparr>obj = TextClip j, start = s, duration = tvd - s, end_t = tvd,
                    crossfade = None, audio = None\<rparr>
         else None)"
proof -
  have "text_timing p tvd n text_data
          = ((\<Sum>i<nat k. clip_eff_duration p i), image_display_duration p)"
    using assms by (simp add: text_timing_def current_start_time_upt)
  then show ?thesis
    using assms(4)
    by (simp add: text_clip_def set_start_def set_duration_def create_text_clip_with_style_def
        clip_eff_duration_def Let_def)
qed




subsection \<open>File identifiers\<close>

text \<open>
  Claim C9. \<open>resolve_file_id_to_path\<close> raises (and then it is the 404 error naming the
  identifier and the directory) if and only if no name of the directory listing starts with
  the identifier. With the empty identifier and a non-empty directory it does not fail: it
  returns the path of the first name of the listing, whichever file that is.
\<close>

theorem resolve_file_id_to_path_404_iff:
  "(isl (resolve_file_id_to_path file_id directory listing)
      \<longleftrightarrow> \<not> (\<exists>f \<in> set listing. startswith f file_id))
   \<and> (isl (resolve_file_id_to_path file_id directory listing)
      \<longrightarrow> (\<exists>detail. resolve_file_id_to_path file_id directory listing
                      = Inl (HTTPException 404 detail)))
   \<and> resolve_file_id_to_path [] directory (f0 # rest) = Inr (os_path_join directory f0)"
proof -
  let ?m = "filter (\<lambda>f. startswith f file_id) listing"
  have a: "isl (resolve_file_id_to_path file_id directory listing) \<longleftrightarrow> ?m = []"
    by (cases ?m) (simp_all add: resolve_file_id_to_path_def)
  have b: "?m = [] \<longleftrightarrow> \<not> (\<exists>f \<in> set listing. startswith f file_id)"
    by (rule filter_empty_iff_no_match)
  have c: "isl (resolve_file_id_to_path file_id directory listing)
      \<longrightarrow> (\<exists>detail. resolve_file_id_to_path file_id directory listing
                      = Inl (HTTPException 404 detail))"
    by (cases ?m) (simp_all add: resolve_file_id_to_path_def)
  have d: "resolve_file_id_to_path [] directory (f0 # rest) = Inr (os_path_join directory f0)"
    by (simp add: resolve_file_id_to_path_def)
  from a b c d show ?thesis by blast
qed

theorem resolve_file_id_to_path_404_iff_witness:
  "\<not> isl (resolve_file_id_to_path ''ab'' ''uploaded_files'' [''xy.png'', ''abc.mp3''])
   \<and> (\<exists>f \<in> set [''xy.png'', ''abc.mp3'']. startswith f ''ab'')
   \<and> isl (resolve_file_id_to_path ''zz'' ''uploaded_files'' [''xy.png'', ''abc.mp3''])
   \<and> resolve_file_id_to_path '''' ''uploaded_files'' [''xy.png'', ''abc.mp3'']
       = Inr ''uploaded_files/xy.png''"
  using resolve_file_id_to_path_404_iff
          [of "''ab''" "''uploaded_files''" "[''xy.png'', ''abc.mp3'']" "''xy.png''" "[]"]
        resolve_file_id_to_path_404_iff
          [of "''zz''" "''uploaded_files''" "[''xy.png'', ''abc.mp3'']" "''xy.png''" "[''abc.mp3'']"]
  by (simp add: os_path_join_def)

subsection \<open>The pan animation\<close>




subsection \<open>The visual timeline\<close>

text \<open>
  Claim C1 says that three images of 3 seconds with a transition of 1 second give a video
  of \<open>3 * 3 - 2 * 1 = 7\<close> seconds. The run below is that request, with music of 10 seconds from
  offset 0: the slides are faded but concatenated end to end, so the video written lasts
  \<open>3 * 3 = 9\<close> seconds, and the audio is cut to 9 seconds.
\<close>

theorem three_slides_last_nine_seconds:
  "output_file (create_video_from_images_and_music_logic fine_world three_slides) =
     Complete \<lparr>obj = FinalWithAudio, start = 0, duration = 9, end_t = 9, crossfade = None,
               audio = Some \<lparr>audio_obj = FinalAudio, audio_duration = 9\<rparr>\<rparr>"
  by (simp add: run_defs fine_world_def three_slides_def)

subsection \<open>Transitions\<close>

text \<open>
  Claim C3 as stated fails: with a display duration of 3 seconds and a transition of 2
  seconds, the first slide is faded over 2 seconds, which is neither
  \<open>min 2 (0.5 * 3) = 1.5\<close> nor at most half the slide.
\<close>

theorem crossfade_not_min_counterexample:
  "build_slide fine_world (three_slides\<lparr>transition_duration := 2\<rparr>) 0 ''uploaded_files/a.png''
     = Inr \<lparr>obj = SlideClip 0, start = 0, duration = 3, end_t = 3, crossfade = Some 2,
            audio = None\<rparr>
   \<and> (2::real) \<noteq> min 2 (0.5 * 3) \<and> (2::real) > 0.5 * 3"
  by (simp add: run_defs fine_world_def three_slides_def)

text \<open>
  Claim C3, amended. For every slide except the last, when the transition duration is
  positive (and the image loads with a positive display duration), the slide is faded out
  over the transition duration itself when that is shorter than the slide, and over
  \<open>max 0.1 (0.5 * duration)\<close> when it is not. This is \<open>min transition (0.5 * duration)\<close> when
  the transition is at most half the slide, and \<open>0.5 * duration\<close> when the transition is at
  least the slide and the slide lasts 0.2 seconds or more. The fade is never longer than
  the slide when the slide lasts 0.1 seconds or more. The slide keeps its duration.
\<close>

theorem build_slide_crossfade:
  assumes "int i < int (length (image_paths p)) - 1" and "transition_duration p > 0"
    and "image_loads w img_path" and "image_display_duration p > 0"
  shows "\<exists>c. build_slide w p i img_path = Inr c
       \<and> duration c = image_display_duration p
       \<and> crossfade c = Some (if transition_duration p \<ge> image_display_duration p
                              then max 0.1 (image_display_duration p * 0.5)
                              else transition_duration p)
       \<and> (transition_duration p \<le> 0.5 * image_display_duration p
            \<longrightarrow> crossfade c = Some (min (transition_duration p) (0.5 * image_display_duration p)))
       \<and> (transition_duration p \<ge> image_display_duration p \<and> image_display_duration p \<ge> 0.2
            \<longrightarrow> crossfade c = Some (0.5 * image_display_duration p))
       \<and> (image_display_duration p \<ge> 0.1
            \<longrightarrow> (\<exists>fade. crossfade c = Some fade \<and> fade \<le> image_display_duration p))"
  using assms
  by (auto simp add: build_slide_def crossfadeout_def actual_transition_def set_duration_def Let_def)

theorem build_slide_crossfade_witness:
  "\<exists>c. build_slide fine_world (three_slides\<lparr>transition_duration := 4\<rparr>) 1 ''uploaded_files/b.png''
         = Inr c
       \<and> duration c = 3 \<and> crossfade c = Some 1.5"
proof -
  have "int 1 < int (length (image_paths (three_slides\<lparr>transition_duration := 4\<rparr>))) - 1"
    and "transition_duration (three_slides\<lparr>transition_duration := 4\<rparr>) > 0"
    and "image_loads fine_world ''uploaded_files/b.png''"
    and "image_display_duration (three_slides\<lparr>transition_duration := 4\<rparr>) > 0"
    by (simp_all add: three_slides_def fine_world_def)
  from build_slide_crossfade [OF this]
  show ?thesis by (auto simp add: three_slides_def)
qed

subsection \<open>Text overlays\<close>

text \<open>
  Claim C4 as stated fails: with two images and an overlay bound to \<open>image_index = 2\<close>, the
  run succeeds and the overlay is a text layer of the final video, from 0 to the end of the
  timeline (6 seconds).
\<close>

theorem out_of_range_overlay_kept_counterexample:
  "result (create_video_from_images_and_music_logic fine_world overlay_on_missing_slide)
     = Inr ''processed_outputs/out.mp4''
   \<and> text_clips_to_composite
       (at_exit (create_video_from_images_and_music_logic fine_world overlay_on_missing_slide))
     = [\<lparr>obj = TextClip 0, start = 0, duration = 6, end_t = 6, crossfade = None, audio = None\<rparr>]"
  by (simp add: run_defs fine_world_def three_slides_def overlay_on_missing_slide_def)

text \<open>
  Claim C4, amended. A text overlay whose \<open>image_index\<close> names no slide (negative, or not
  below the number of slides) is not dropped: on a timeline of positive duration it becomes
  a text layer that starts at 0 and lasts the whole timeline, as an overlay without index
  does, and the loop goes on with the remaining overlays.
\<close>

theorem text_clip_index_out_of_range:
  assumes "image_index text_data = Some k" and "k < 0 \<or> int n \<le> k" and "0 < tvd"
  shows "text_clip p tvd n j text_data
           = Some \<lparr>obj = TextClip j, start = 0, duration = tvd, end_t = tvd,
                   crossfade = None, audio = None\<rparr>
       \<and> text_loop p tvd n j (text_data # rest)
           = \<lparr>obj = TextClip j, start = 0, duration = tvd, end_t = tvd,
              crossfade = None, audio = None\<rparr> # text_loop p tvd n (Suc j) rest"
proof -
  have "text_timing p tvd n text_data = (0, tvd)"
    using assms by (auto simp add: text_timing_def)
  then have "text_clip p tvd n j text_data
           = Some \<lparr>obj = TextClip j, start = 0, duration = tvd, end_t = tvd,
                   crossfade = None, audio = None\<rparr>"
    using assms(3)
    by (simp add: text_clip_def set_start_def set_duration_def create_text_clip_with_style_def)
  then show ?thesis by simp
qed

theorem text_clip_index_out_of_range_witness:
  "text_clip three_slides 9 3 0
     \<lparr>overlay_text = ''hello'', style = ''Minimal'', image_index = Some 3, position = ''top''\<rparr>
   = Some \<lparr>obj = TextClip 0, start = 0, duration = 9, end_t = 9, crossfade = None, audio = None\<rparr>"
proof -
  let ?t = "\<lparr>overlay_text = ''hello'', style = ''Minimal'', image_index = Some 3,
             position = ''top''\<rparr>"
  have "image_index ?t = Some 3" and "(3::int) < 0 \<or> int 3 \<le> 3" and "(0::real) < 9"
    by simp_all
  from text_clip_index_out_of_range [OF this, of three_slides 0 "[]"]
  show ?thesis by simp
qed

text \<open>
  Claim C5. Let the visual stage of a run have completed with timeline duration \<open>t\<close>, and
  let overlay \<open>j\<close> of the request be bound to a valid image index \<open>k\<close>. Then the text layers
  composited into the final video hold exactly one layer made for that overlay: it starts
  at \<open>s\<close>, the sum over the slides \<open>0..k-1\<close> of the display duration reduced by
  \<open>min transition (0.5 * display)\<close> where a transition follows the slide (every such
  slide, so \<open>s\<close> is \<open>k\<close> times that amount), and it lasts the display duration \<open>d\<close>. In a
  run this interval ends within the timeline. The text loop itself, for any timeline
  duration \<open>tvd\<close>, appends the layer as it is when \<open>s + d \<le> tvd\<close>, cuts it to end exactly
  at \<open>tvd\<close> when it would pass the end, and appends nothing when the cut leaves no positive
  duration.
\<close>

theorem overlay_on_valid_slide:
  assumes "visual_stage w p initial_locals = (Inr t, lv)"
    and "texts p = Some ts" and "j < length ts"
    and "image_index (ts ! j) = Some k" and "0 \<le> k" and "k < int (length (image_paths p))"
    and "d = image_display_duration p"
    and "s = (\<Sum>i<nat k. if int i < int (length (image_paths p)) - 1 \<and> transition_duration p > 0
                           then d - min (transition_duration p) (d * 0.5) else d)"
  shows "filter (\<lambda>c. obj c = TextClip j)
           (text_clips_to_composite (at_exit (create_video_from_images_and_music_logic w p)))
         = [\<lparr>obj = TextClip j, start = s, duration = d, end_t = s + d,
             crossfade = None, audio = None\<rparr>]
       \<and> s + d \<le> t
       \<and> s = real (nat k) * (if transition_duration p > 0
                               then d - min (transition_duration p) (d * 0.5) else d)
       \<and> (k < int n \<longrightarrow>
            text_loop p tvd n j' (ts ! j # rest)
              = (if s + d \<le> tvd
                 then [\<lparr>obj = TextClip j', start = s, duration = d, end_t = s + d,
                         crossfade = None, audio = None\<rparr>]
                 else if 0 < tvd - s
                 then [\<lparr>obj = TextClip j', start = s, duration = tvd - s, end_t = tvd,
                         crossfade = None, audio = None\<rparr>]
                 else [])
                @ text_loop p tvd n (Suc j') rest)"
proof -
  let ?m = "length (image_paths p)"
  from visual_stage_display_positive [OF assms(1)] assms(7) have dpos: "0 < d"
    and dpos': "0 < image_display_duration p" by simp_all
  from visual_stage_Inr [OF assms(1)] assms(7) have t: "t = real ?m * d" by simp
  have "s \<le> real (nat k) * d"
    unfolding assms(8) by (rule eff_sum_bound [OF dpos])
  moreover have "real (nat k) + 1 \<le> real ?m" using assms(5,6) by linarith
  then have "(real (nat k) + 1) * d \<le> real ?m * d"
    using dpos by (simp only: mult_le_cancel_right_pos)
  ultimately have fits: "s + d \<le> t" unfolding t by (simp add: algebra_simps)
  have closed_form: "s = real (nat k) * (if transition_duration p > 0
                               then d - min (transition_duration p) (d * 0.5) else d)"
  proof -
    have "\<And>i. i < nat k \<Longrightarrow> int i < int ?m - 1" using assms(5,6) by linarith
    then show ?thesis unfolding assms(8) by simp
  qed
  have in_run: "text_clip p t ?m j (ts ! j)
          = Some \<lparr>obj = TextClip j, start = s, duration = d, end_t = s + d,
                  crossfade = None, audio = None\<rparr>"
    using text_clip_on_slide [OF assms(4,5,6) dpos', of t j] fits
    unfolding assms(8) assms(7) by (simp add: Let_def)
  have "filter (\<lambda>c. obj c = TextClip j) (text_loop p t ?m 0 ts)
          = (case text_clip p t ?m j (ts ! (j - 0)) of None \<Rightarrow> [] | Some c \<Rightarrow> [c])"
    by (rule text_loop_filter) (use assms(3) in simp_all)
  with in_run visual_stage_text_clips [OF assms(1,2)] at_exit_text_clips [OF assms(1)]
  have layer: "filter (\<lambda>c. obj c = TextClip j)
           (text_clips_to_composite (at_exit (create_video_from_images_and_music_logic w p)))
         = [\<lparr>obj = TextClip j, start = s, duration = d, end_t = s + d,
             crossfade = None, audio = None\<rparr>]"
    by simp
  have step: "k < int n \<longrightarrow>
            text_loop p tvd n j' (ts ! j # rest)
              = (if s + d \<le> tvd
                 then [\<lparr>obj = TextClip j', start = s, duration = d, end_t = s + d,
                         crossfade = None, audio = None\<rparr>]
                 else if 0 < tvd - s
                 then [\<lparr>obj = TextClip j', start = s, duration = tvd - s, end_t = tvd,
                         crossfade = None, audio = None\<rparr>]
                 else [])
                @ text_loop p tvd n (Suc j') rest"
  proof
    assume "k < int n"
    from text_clip_on_slide [OF assms(4,5) this dpos', of tvd j']
    show "text_loop p tvd n j' (ts ! j # rest)
              = (if s + d \<le> tvd
                 then [\<lparr>obj = TextClip j', start = s, duration = d, end_t = s + d,
                         crossfade = None, audio = None\<rparr>]
                 else if 0 < tvd - s
                 then [\<lparr>obj = TextClip j', start = s, duration = tvd - s, end_t = tvd,
                         crossfade = None, audio = None\<rparr>]
                 else [])
                @ text_loop p tvd n (Suc j') rest"
      unfolding assms(8) assms(7) by (simp add: Let_def)
  qed
  from layer fits closed_form step show ?thesis by blast
qed

theorem overlay_on_valid_slide_witness:
  "filter (\<lambda>c. obj c = TextClip 0)
     (text_clips_to_composite
        (at_exit (create_video_from_images_and_music_logic fine_world overlay_on_second_slide)))
   = [\<lparr>obj = TextClip 0, start = 2, duration = 3, end_t = 5, crossfade = None, audio = None\<rparr>]
   \<and> (2::real) + 3 \<le> 9
   \<and> text_loop overlay_on_second_slide 9 3 0
        [\<lparr>overlay_text = ''hello'', style = ''Minimal'', image_index = Some 1,
           position = ''bottom''\<rparr>]
     = [\<lparr>obj = TextClip 0, start = 2, duration = 3, end_t = 5, crossfade = None, audio = None\<rparr>]"
proof -
  let ?t = "\<lparr>overlay_text = ''hello'', style = ''Minimal'', image_index = Some 1,
             position = ''bottom''\<rparr>"
  obtain lv where v: "visual_stage fine_world overlay_on_second_slide initial_locals = (Inr 9, lv)"
    by (simp add: run_defs fine_world_def three_slides_def overlay_on_second_slide_def)
  have h: "texts overlay_on_second_slide = Some [?t]" "0 < length [?t]"
    "image_index ([?t] ! 0) = Some 1" "(0::int) \<le> 1"
    "(1::int) < int (length (image_paths overlay_on_second_slide))"
    by (simp_all add: three_slides_def overlay_on_second_slide_def)
  from overlay_on_valid_slide [OF v h refl refl, where n = 3 and tvd = 9 and j' = 0 and rest = "[]"]
  show ?thesis by (simp add: three_slides_def overlay_on_second_slide_def)
qed

subsection \<open>Cleanup\<close>

text \<open>
  Claim C6 asks that every opened clip is closed exactly once, also when two variables hold
  the same object. In the run below there is no text and the audio file is missing: the
  pipeline returns before \<open>set_audio\<close>, \<open>final_video_clip\<close> is still the base video, and the
  cleanup calls \<open>close\<close> on that one object twice, once under each name.
\<close>

theorem base_video_closed_twice:
  "closed (create_video_from_images_and_music_logic
             (fine_world\<lparr>audio_exists := False\<rparr>) three_slides)
     = [BaseVideo, BaseVideo, SlideClip 0, SlideClip 1, SlideClip 2]
   \<and> result (create_video_from_images_and_music_logic
               (fine_world\<lparr>audio_exists := False\<rparr>) three_slides)
     = Inl (AudioFileMissing ''uploaded_files/m.mp3'')"
  by (simp add: run_defs fine_world_def three_slides_def)

subsection \<open>The audio binder\<close>

text \<open>
  Claim C2 says that a segment shorter than the visual timeline is looped to the
  timeline's duration and bound to the video. The run below is the scenario of one image
  of 5 seconds with a segment of 2 seconds: the lookup of the loop effect raises, the
  handler returns the audio-processing error, no audio is bound to the final clip, and no
  video is written.
\<close>

theorem short_segment_is_not_looped:
  "result (create_video_from_images_and_music_logic
             (fine_world\<lparr>track_duration := 1\<rparr>) one_slide_short_music)
     = Inl AudioProcessingFailed
   \<and> temp_audio_segment_intermediate
       (at_exit (create_video_from_images_and_music_logic
                   (fine_world\<lparr>track_duration := 1\<rparr>) one_slide_short_music))
     = Some \<lparr>audio_obj = TempAudio, audio_duration = 2\<rparr>
   \<and> audio_segment_final_for_video
       (at_exit (create_video_from_images_and_music_logic
                   (fine_world\<lparr>track_duration := 1\<rparr>) one_slide_short_music))
     = None
   \<and> final_video_clip
       (at_exit (create_video_from_images_and_music_logic
                   (fine_world\<lparr>track_duration := 1\<rparr>) one_slide_short_music))
     = Some \<lparr>obj = FinalComposite, start = 0, duration = 5, end_t = 5, crossfade = None,
             audio = None\<rparr>
   \<and> output_file (create_video_from_images_and_music_logic
                    (fine_world\<lparr>track_duration := 1\<rparr>) one_slide_short_music)
     = Absent"
  by (simp add: run_defs fine_world_def one_slide_short_music_def)

text \<open>
  Claim C7 says that, with a readable non-empty track, the audio binder fails exactly when
  the start offset is at or beyond the end of the track. In the run below the track of 5
  seconds is there, readable and not empty, and the start offset is 0; the segment of 5
  seconds is shorter than the timeline of 9 seconds, the lookup of the loop effect raises,
  and the binder fails.
\<close>

theorem binder_fails_with_start_inside_track:
  "music_segment_start_time three_slides < track_duration (fine_world\<lparr>track_duration := 5\<rparr>)
   \<and> audio_exists (fine_world\<lparr>track_duration := 5\<rparr>)
   \<and> audio_readable (fine_world\<lparr>track_duration := 5\<rparr>)
   \<and> 0 < audio_getsize (fine_world\<lparr>track_duration := 5\<rparr>)
   \<and> result (create_video_from_images_and_music_logic
               (fine_world\<lparr>track_duration := 5\<rparr>) three_slides)
     = Inl AudioProcessingFailed
   \<and> create_video_from_images (fine_world\<lparr>track_duration := 5\<rparr>) three_slides
     = (ServerError 500 AudioProcessingFailed, Absent)"
  by (simp add: run_defs fine_world_def three_slides_def)

text \<open>
  Claim C8 as stated fails: the image stage runs before the audio checks, so a request
  whose audio file has zero bytes and whose image list is empty fails with the image error,
  not with an audio error.
\<close>

theorem image_error_before_audio_check_counterexample:
  "result (create_video_from_images_and_music_logic
             (fine_world\<lparr>audio_getsize := 0\<rparr>) (three_slides\<lparr>image_paths := []\<rparr>))
     = Inl NoValidImageClips
   \<and> create_video_from_images (fine_world\<lparr>audio_getsize := 0\<rparr>)
        (three_slides\<lparr>image_paths := []\<rparr>)
     = (ServerError 500 NoValidImageClips, Absent)"
  by (simp add: run_defs fine_world_def three_slides_def)

text \<open>
  Claim C8, amended. For every request whose audio file is missing, unreadable or empty,
  the pipeline returns an error without ever making an audio clip, no output file is
  written, and the endpoint answers with status 500 and leaves no output file. When the
  visual stage has completed, the error is the audio error that names the path (missing,
  not readable, or empty).
\<close>

theorem unusable_audio_file_fails:
  assumes "\<not> audio_exists w \<or> \<not> audio_readable w \<or> audio_getsize w = 0"
    and "out = create_video_from_images_and_music_logic w p"
    and "audio_error = (if \<not> audio_exists w then AudioFileMissing (audio_path p)
                        else if \<not> audio_readable w then AudioFileNotReadable (audio_path p)
                        else AudioFileEmpty (audio_path p))"
  shows "isl (result out)
       \<and> full_audio_clip_main (at_exit out) = None
       \<and> temp_audio_segment_intermediate (at_exit out) = None
       \<and> audio_segment_final_for_video (at_exit out) = None
       \<and> output_file out = Absent
       \<and> (\<exists>e. create_video_from_images w p = (ServerError 500 e, Absent))
       \<and> (visual_stage w p initial_locals = (Inr t, lv)
            \<longrightarrow> result out = Inl audio_error
                \<and> create_video_from_images w p = (ServerError 500 audio_error, Absent))"
proof (cases rule: try_block_shape [of w p])
  case (visual_failed e lv0)
  note flds = logic_fields [OF visual_failed(2), folded assms(2)]
  from visual_stage_locals [OF visual_failed(1)]
  have vars: "full_audio_clip_main lv0 = None" "temp_audio_segment_intermediate lv0 = None"
    "audio_segment_final_for_video lv0 = None"
    by (simp_all add: initial_audio_vars)
  from endpoint_failed [of w p e] flds assms(2)
  have "create_video_from_images w p = (ServerError 500 e, Absent)" by simp
  with flds vars visual_failed(1) show ?thesis by simp
next
  case (audio_failed t0 lv0 final e lv')
  note flds = logic_fields [OF audio_failed(7), folded assms(2)]
  from visual_stage_locals [OF audio_failed(1)]
  have vars: "full_audio_clip_main lv0 = None" "temp_audio_segment_intermediate lv0 = None"
    "audio_segment_final_for_video lv0 = None"
    by (simp_all add: initial_audio_vars)
  from audio_stage_unusable_file [OF assms(1), of p t0 final lv0] audio_failed(6) assms(3)
  have e: "e = audio_error" and lv': "lv' = lv0" by simp_all
  from endpoint_failed [of w p e] flds assms(2)
  have "create_video_from_images w p = (ServerError 500 e, Absent)" by simp
  with flds vars e lv' show ?thesis by simp
next
  case (written t0 lv0 final lv' a)
  from audio_stage_unusable_file [OF assms(1), of p t0 final lv0] written(6)
  show ?thesis by simp
qed

theorem unusable_audio_file_fails_witness:
  "result (create_video_from_images_and_music_logic (fine_world\<lparr>audio_getsize := 0\<rparr>) three_slides)
     = Inl (AudioFileEmpty ''uploaded_files/m.mp3'')
   \<and> create_video_from_images (fine_world\<lparr>audio_getsize := 0\<rparr>) three_slides
     = (ServerError 500 (AudioFileEmpty ''uploaded_files/m.mp3''), Absent)"
proof -
  let ?w = "fine_world\<lparr>audio_getsize := 0\<rparr>"
  have bad: "\<not> audio_exists ?w \<or> \<not> audio_readable ?w \<or> audio_getsize ?w = 0"
    by simp
  obtain lv where v: "visual_stage ?w three_slides initial_locals = (Inr 9, lv)"
    by (simp add: run_defs fine_world_def three_slides_def)
  from unusable_audio_file_fails [OF bad refl refl, of three_slides 9 lv] v
  show ?thesis by (simp add: fine_world_def three_slides_def)
qed

end
